theory Spec2Isabelle
  imports Main
begin

section \<open>Data model\<close>

text \<open>
  The service of \<^verbatim>\<open>sample_supabase_agent.py\<close> handles Python dictionaries and lists that
  come from, and go to, JSON: table rows, the insert payload, the completion payload and
  the completion reply. They are modelled as JSON values. A dictionary is an association
  list read with \<open>map_of\<close>. Numbers are never inspected by the code.
\<close>

datatype json =
    JNull
  | JBool bool
  | JNumber int
  | JString string
  | JArray "json list"
  | JObject "(string \<times> json) list"

text \<open>
  Exceptions. \<open>HTTPException\<close> is the framework's exception with its status code and detail,
  \<open>HTTPError\<close> is what \<^verbatim>\<open>raise_for_status\<close> raises (a \<^verbatim>\<open>RequestException\<close>),
  \<open>RequestException\<close> stands for every other exception of that class, \<open>Error\<close> for any
  other exception a collaborator raises.
\<close>

datatype exn =
    HTTPException int string
  | HTTPError int
  | RequestException string
  | KeyError string
  | IndexError
  | TypeError
  | AttributeError
  | Error string

fun is_RequestException :: "exn \<Rightarrow> bool" where
  "is_RequestException (HTTPError _) = True"
| "is_RequestException (RequestException _) = True"
| "is_RequestException _ = False"

record AgentRequest =
  query :: string
  user_id :: string
  request_id :: string
  session_id :: string

record AgentResponse =
  success :: bool

text \<open>The reply of the completion endpoint: its status and what \<^verbatim>\<open>response.json()\<close> gives.\<close>

record http_response =
  status_code :: int
  json_body :: "exn + json"

text \<open>The calls made to the collaborators, in the order they are made.\<close>

datatype event =
    Select string int
  | Insert json
  | Post string "(string \<times> string) list" json

text \<open>
  The world outside the handler. \<open>table\<close> holds the rows of the \<^verbatim>\<open>messages\<close> table, oldest
  first, and \<open>trace\<close> the calls made so far; only these two change. The other fields are
  the behaviour of the collaborators, which the code does not decide: the environment
  variables, Python's \<^verbatim>\<open>str\<close> on an exception, what the store answers to a select and to
  an insert (\<open>None\<close>: the insert is accepted), and what the completion endpoint answers.
  Each answer may depend on the calls made so far and on the table.
\<close>

record world =
  getenv :: "string \<Rightarrow> string option"
  py_str :: "exn \<Rightarrow> string"
  select_execute :: "event list \<Rightarrow> json list \<Rightarrow> string \<Rightarrow> int \<Rightarrow> exn + json list"
  insert_execute :: "event list \<Rightarrow> json list \<Rightarrow> json \<Rightarrow> exn option"
  requests_post :: "event list \<Rightarrow> string \<Rightarrow> (string \<times> string) list \<Rightarrow> json \<Rightarrow> exn + http_response"
  table :: "json list"
  trace :: "event list"

section \<open>Python operations on JSON values\<close>

text \<open>\<^verbatim>\<open>x[key]\<close> with a string key.\<close>

fun py_getitem :: "json \<Rightarrow> string \<Rightarrow> exn + json" where
  "py_getitem (JObject kvs) k =
     (case map_of kvs k of None \<Rightarrow> Inl (KeyError k) | Some v \<Rightarrow> Inr v)"
| "py_getitem _ k = Inl TypeError"

text \<open>\<^verbatim>\<open>x.get(key, default)\<close>: only a dictionary has the method.\<close>

fun py_get :: "json \<Rightarrow> string \<Rightarrow> json \<Rightarrow> exn + json" where
  "py_get (JObject kvs) k d =
     (case map_of kvs k of None \<Rightarrow> Inr d | Some v \<Rightarrow> Inr v)"
| "py_get _ k d = Inl AttributeError"

text \<open>\<^verbatim>\<open>x[0]\<close>; the keys of a dictionary read from JSON are strings, so \<open>0\<close> is never one.\<close>

fun py_index0 :: "json \<Rightarrow> exn + json" where
  "py_index0 (JArray []) = Inl IndexError"
| "py_index0 (JArray (x # _)) = Inr x"
| "py_index0 (JString []) = Inl IndexError"
| "py_index0 (JString (c # _)) = Inr (JString [c])"
| "py_index0 (JObject _) = Inl (KeyError ''0'')"
| "py_index0 _ = Inl TypeError"

section \<open>Token Verifier\<close>

definition verify_token :: "world \<Rightarrow> string \<Rightarrow> exn + bool" where
  "verify_token w credentials =
     (case getenv w ''API_BEARER_TOKEN'' of
        None \<Rightarrow> Inl (HTTPException 500 ''API_BEARER_TOKEN environment variable not set'')
      | Some expected_token \<Rightarrow>
          if expected_token = []
          then Inl (HTTPException 500 ''API_BEARER_TOKEN environment variable not set'')
          else if credentials \<noteq> expected_token
          then Inl (HTTPException 401 ''Invalid authentication token'')
          else Inr True)"

section \<open>History Reader\<close>

definition default_limit :: int where
  "default_limit = 10"

definition fetch_conversation_history ::
    "string \<Rightarrow> int \<Rightarrow> world \<Rightarrow> (exn + json list) \<times> world" where
  "fetch_conversation_history sid limit w =
     (let w' = w\<lparr>trace := trace w @ [Select sid limit]\<rparr> in
      case select_execute w (trace w) (table w) sid limit of
        Inl e \<Rightarrow>
          (Inl (HTTPException 500 (''Failed to fetch conversation history: '' @ py_str w e)), w')
      | Inr data \<Rightarrow> (Inr (rev data), w'))"

text \<open>The loop of the handler that projects each row to its role and content.\<close>

fun project_messages :: "json list \<Rightarrow> exn + json list" where
  "project_messages [] = Inr []"
| "project_messages (msg # rest) =
     (case py_getitem msg ''message'' of
        Inl e \<Rightarrow> Inl e
      | Inr msg_data \<Rightarrow>
          (case py_getitem msg_data ''type'' of
             Inl e \<Rightarrow> Inl e
           | Inr msg_type \<Rightarrow>
               (case py_getitem msg_data ''content'' of
                  Inl e \<Rightarrow> Inl e
                | Inr msg_content \<Rightarrow>
                    (case project_messages rest of
                       Inl e \<Rightarrow> Inl e
                     | Inr messages \<Rightarrow>
                         Inr (JObject [(''role'', msg_type), (''content'', msg_content)]
                              # messages)))))"

definition history_reader :: "string \<Rightarrow> world \<Rightarrow> (exn + json list) \<times> world" where
  "history_reader sid w =
     (case fetch_conversation_history sid default_limit w of
        (Inl e, w') \<Rightarrow> (Inl e, w')
      | (Inr conversation_history, w') \<Rightarrow> (project_messages conversation_history, w'))"

section \<open>Message Writer\<close>

text \<open>The record sent to the store; \<^verbatim>\<open>if data:\<close> is false for \<^verbatim>\<open>None\<close> and for \<^verbatim>\<open>{}\<close>.\<close>

definition message_row ::
    "string \<Rightarrow> string \<Rightarrow> json \<Rightarrow> (string \<times> json) list option \<Rightarrow> json" where
  "message_row sid message_type content data =
     JObject [(''session_id'', JString sid),
              (''message'',
               JObject ([(''type'', JString message_type), (''content'', content)] @
                        (case data of
                           None \<Rightarrow> []
                         | Some d \<Rightarrow> if d = [] then [] else [(''data'', JObject d)])))]"

definition store_message ::
    "string \<Rightarrow> string \<Rightarrow> json \<Rightarrow> (string \<times> json) list option \<Rightarrow> world
      \<Rightarrow> (exn + unit) \<times> world" where
  "store_message sid message_type content data w =
     (let row = message_row sid message_type content data;
          w' = w\<lparr>trace := trace w @ [Insert row]\<rparr> in
      case insert_execute w (trace w) (table w) row of
        Some e \<Rightarrow> (Inl (HTTPException 500 (''Failed to store message: '' @ py_str w e)), w')
      | None \<Rightarrow> (Inr (), w'\<lparr>table := table w @ [row]\<rparr>))"

section \<open>Completion Client\<close>

definition completion_url :: string where
  "completion_url = ''https://api.together.xyz/v1/chat/completions''"

definition completion_headers :: "world \<Rightarrow> (string \<times> string) list" where
  "completion_headers w =
     [(''Authorization'',
       ''Bearer '' @ (case getenv w ''TOGETHER_API_KEY'' of None \<Rightarrow> ''None'' | Some k \<Rightarrow> k)),
      (''Content-Type'', ''application/json'')]"

definition prompt_content :: "string \<Rightarrow> string" where
  "prompt_content q =
     ''Identify the programming language used in the provided code snippet and list its programming concepts. '' @
     q @
     ''If the language is identified, organize the response as follows: '' @
     ''Programming Language: Name of the language. '' @
     ''Programming Concepts: '' @
     ''- Concept 1: '' @
     ''  - Subconcept 1: Explanation (in simple terms, up to 100 words, with examples). '' @
     ''  - Subconcept 2: Explanation (in simple terms, up to 100 words, with examples). '' @
     ''(Continue for additional concepts as needed). '' @
     ''If the code provided error : '' @
     ''Programming Concepts to learn to fix the eror: '' @
     ''- Concept 1: '' @
     ''  - Subconcept 1: Explanation (in simple terms, up to 100 words, with examples). '' @
     ''  - Subconcept 2: Explanation (in simple terms, up to 100 words, with examples). '' @
     ''(Continue for additional concepts as needed). '' @
     ''If the programming language cannot be identified: '' @
     ''Provide an explanation of the possible programming concepts behind the snippet, following the structure above.''"

definition completion_payload :: "string \<Rightarrow> json" where
  "completion_payload q =
     JObject [(''model'', JString ''meta-llama/Llama-3.3-70B-Instruct-Turbo''),
              (''messages'',
               JArray [JObject [(''role'', JString ''user''),
                                (''content'', JString (prompt_content q))]])]"

text \<open>\<^verbatim>\<open>response.raise_for_status()\<close>: the statuses 400 to 599 raise.\<close>

definition raise_for_status :: "http_response \<Rightarrow> exn + unit" where
  "raise_for_status r =
     (if 400 \<le> status_code r \<and> status_code r < 600
      then Inl (HTTPError (status_code r)) else Inr ())"

text \<open>
  \<^verbatim>\<open>response_data.get("choices", [{}])[0].get("message", {}).get("content", "")\<close>
\<close>

definition extract_model_response :: "json \<Rightarrow> exn + json" where
  "extract_model_response response_data =
     (case py_get response_data ''choices'' (JArray [JObject []]) of
        Inl e \<Rightarrow> Inl e
      | Inr choices \<Rightarrow>
          (case py_index0 choices of
             Inl e \<Rightarrow> Inl e
           | Inr choice \<Rightarrow>
               (case py_get choice ''message'' (JObject []) of
                  Inl e \<Rightarrow> Inl e
                | Inr message \<Rightarrow> py_get message ''content'' (JString []))))"

text \<open>The body of the inner \<^verbatim>\<open>try\<close>, after the call has returned or raised.\<close>

definition read_completion :: "exn + http_response \<Rightarrow> exn + json" where
  "read_completion reply =
     (case reply of
        Inl e \<Rightarrow> Inl e
      | Inr response \<Rightarrow>
          (case raise_for_status response of
             Inl e \<Rightarrow> Inl e
           | Inr _ \<Rightarrow>
               (case json_body response of
                  Inl e \<Rightarrow> Inl e
                | Inr response_data \<Rightarrow> extract_model_response response_data)))"

text \<open>
  The inner \<^verbatim>\<open>except requests.exceptions.RequestException\<close>: an exception of that class
  becomes an \<open>HTTPException\<close> with status 500, any other exception passes through.
\<close>

definition except_RequestException :: "world \<Rightarrow> exn + json \<Rightarrow> exn + json" where
  "except_RequestException w r =
     (case r of
        Inl e \<Rightarrow> if is_RequestException e then Inl (HTTPException 500 (py_str w e)) else Inl e
      | Inr v \<Rightarrow> Inr v)"

definition call_completion :: "string \<Rightarrow> world \<Rightarrow> (exn + json) \<times> world" where
  "call_completion q w =
     (let url = completion_url;
          headers = completion_headers w;
          payload = completion_payload q;
          w' = w\<lparr>trace := trace w @ [Post url headers payload]\<rparr> in
      (except_RequestException w
         (read_completion (requests_post w (trace w) url headers payload)), w'))"

section \<open>Request Handler\<close>

definition apology :: string where
  "apology = ''I apologize, but I encountered an error processing your request.''"

text \<open>
  The body of the outer \<^verbatim>\<open>try\<close>. The projected \<open>messages\<close> are built and not used again;
  the \<^verbatim>\<open>print\<close> calls only write to the console and are left out.
\<close>

definition try_body :: "AgentRequest \<Rightarrow> world \<Rightarrow> (exn + AgentResponse) \<times> world" where
  "try_body request w =
     (case history_reader (session_id request) w of
        (Inl e, w1) \<Rightarrow> (Inl e, w1)
      | (Inr messages, w1) \<Rightarrow>
          (case store_message (session_id request) ''human'' (JString (query request)) None w1 of
             (Inl e, w2) \<Rightarrow> (Inl e, w2)
           | (Inr _, w2) \<Rightarrow>
               (case call_completion (query request) w2 of
                  (Inl e, w3) \<Rightarrow> (Inl e, w3)
                | (Inr model_response, w3) \<Rightarrow>
                    (case store_message (session_id request) ''ai'' model_response
                            (Some [(''request_id'', JString (request_id request))]) w3 of
                       (Inl e, w4) \<Rightarrow> (Inl e, w4)
                     | (Inr _, w4) \<Rightarrow> (Inr \<lparr>success = True\<rparr>, w4)))))"

text \<open>The metadata of the apology message written by the \<^verbatim>\<open>except Exception\<close> branch.\<close>

definition error_data :: "world \<Rightarrow> AgentRequest \<Rightarrow> exn \<Rightarrow> (string \<times> json) list" where
  "error_data w request e =
     [(''error'', JString (py_str w e)), (''request_id'', JString (request_id request))]"

definition sample_supabase_agent ::
    "AgentRequest \<Rightarrow> world \<Rightarrow> (exn + AgentResponse) \<times> world" where
  "sample_supabase_agent request w =
     (case try_body request w of
        (Inr r, w') \<Rightarrow> (Inr r, w')
      | (Inl e, w') \<Rightarrow>
          (case store_message (session_id request) ''ai'' (JString apology)
                  (Some (error_data w' request e)) w' of
             (Inl e', w'') \<Rightarrow> (Inl e', w'')
           | (Inr _, w'') \<Rightarrow> (Inr \<lparr>success = False\<rparr>, w'')))"

text \<open>
  The route: the framework resolves the bearer scheme, then \<open>verify_token\<close>, and only then
  calls the handler. \<open>bearer\<close> is what the bearer scheme gives: the presented credential,
  or the exception with which the framework rejects a request that presents none.
\<close>

definition api_sample_supabase_agent ::
    "exn + string \<Rightarrow> AgentRequest \<Rightarrow> world \<Rightarrow> (exn + AgentResponse) \<times> world" where
  "api_sample_supabase_agent bearer request w =
     (case bearer of
        Inl e \<Rightarrow> (Inl e, w)
      | Inr credentials \<Rightarrow>
          (case verify_token w credentials of
             Inl e \<Rightarrow> (Inl e, w)
           | Inr authenticated \<Rightarrow> sample_supabase_agent request w))"

text \<open>
  The status the caller sees: 200 with the response model, the status of an
  \<open>HTTPException\<close>, and 500 for any other exception that leaves the handler.
\<close>

fun http_status :: "exn + AgentResponse \<Rightarrow> int" where
  "http_status (Inr _) = 200"
| "http_status (Inl (HTTPException code _)) = code"
| "http_status (Inl _) = 500"

section \<open>Observing the store\<close>

text \<open>The rows whose message has the given role tag.\<close>

definition has_type :: "string \<Rightarrow> json \<Rightarrow> bool" where
  "has_type ty row =
     (case py_getitem row ''message'' of
        Inl e \<Rightarrow> False
      | Inr m \<Rightarrow> py_getitem m ''type'' = Inr (JString ty))"

definition rows_of_type :: "string \<Rightarrow> json list \<Rightarrow> json list" where
  "rows_of_type ty rows = filter (has_type ty) rows"

text \<open>The rows a request writes: the user turn, the assistant turn, the apology.\<close>

definition human_row :: "AgentRequest \<Rightarrow> json" where
  "human_row request =
     message_row (session_id request) ''human'' (JString (query request)) None"

definition ai_row :: "AgentRequest \<Rightarrow> json \<Rightarrow> json" where
  "ai_row request model_response =
     message_row (session_id request) ''ai'' model_response
       (Some [(''request_id'', JString (request_id request))])"

definition apology_row :: "world \<Rightarrow> AgentRequest \<Rightarrow> exn \<Rightarrow> json" where
  "apology_row w request e =
     message_row (session_id request) ''ai'' (JString apology) (Some (error_data w request e))"

definition completion_call :: "world \<Rightarrow> AgentRequest \<Rightarrow> event" where
  "completion_call w request =
     Post completion_url (completion_headers w) (completion_payload (query request))"

text \<open>A world after further calls and further accepted rows, and what a run added.\<close>

definition extend :: "world \<Rightarrow> event list \<Rightarrow> json list \<Rightarrow> world" where
  "extend w evs rows = w\<lparr>trace := trace w @ evs, table := table w @ rows\<rparr>"

definition new_rows :: "world \<Rightarrow> world \<Rightarrow> json list" where
  "new_rows w w' = drop (length (table w)) (table w')"

definition new_events :: "world \<Rightarrow> world \<Rightarrow> event list" where
  "new_events w w' = drop (length (trace w)) (trace w')"

section \<open>Concrete worlds\<close>

text \<open>
  Worlds on which the model is run. \<open>example_str\<close> renders the exceptions that occur in
  them as the libraries print them: an \<open>HTTPException\<close> as its status, a colon and its
  detail, the \<open>HTTPError\<close> of a 503 reply with the message \<^verbatim>\<open>raise_for_status\<close> builds.
  \<open>example_world\<close> fixes the configured token, the answer to a select, the answer to an
  insert from the number of calls made before it, and the completion reply.
\<close>

fun status_text :: "int \<Rightarrow> string" where
  "status_text code =
     (if code = 401 then ''401'' else if code = 403 then ''403''
      else if code = 500 then ''500'' else ''status'')"

fun example_str :: "exn \<Rightarrow> string" where
  "example_str (HTTPException code detail) = status_text code @ '': '' @ detail"
| "example_str (HTTPError code) =
     (if code = 503
      then ''503 Server Error: Service Unavailable for url: https://api.together.xyz/v1/chat/completions''
      else ''HTTPError'')"
| "example_str (RequestException s) = s"
| "example_str (KeyError k) = k"
| "example_str IndexError = ''list index out of range''"
| "example_str TypeError = ''TypeError''"
| "example_str AttributeError = ''AttributeError''"
| "example_str (Error s) = s"

definition example_world ::
    "string option \<Rightarrow> exn + json list \<Rightarrow> (nat \<Rightarrow> exn option) \<Rightarrow> exn + http_response
      \<Rightarrow> world" where
  "example_world token rows faults reply =
     \<lparr>getenv = (\<lambda>k. if k = ''API_BEARER_TOKEN'' then token else None),
      py_str = example_str,
      select_execute = (\<lambda>tr tb sid limit. rows),
      insert_execute = (\<lambda>tr tb row. faults (length tr)),
      requests_post = (\<lambda>tr url headers payload. reply),
      table = [],
      trace = []\<rparr>"

definition example_request :: AgentRequest where
  "example_request =
     \<lparr>query = ''print(1)'', user_id = ''u1'', request_id = ''r1'', session_id = ''s1''\<rparr>"

definition answer_body :: json where
  "answer_body =
     JObject [(''choices'',
               JArray [JObject [(''message'', JObject [(''content'', JString ''Python'')])]])]"

definition ok_reply :: "json \<Rightarrow> exn + http_response" where
  "ok_reply body = Inr \<lparr>status_code = 200, json_body = Inr body\<rparr>"

definition no_faults :: "nat \<Rightarrow> exn option" where
  "no_faults n = None"

definition all_faults :: "nat \<Rightarrow> exn option" where
  "all_faults n = Some (Error ''store down'')"

definition world_ok :: world where
  "world_ok = example_world (Some ''secret'') (Inr []) no_faults (ok_reply answer_body)"


definition world_empty_token :: world where
  "world_empty_token = example_world (Some []) (Inr []) no_faults (ok_reply answer_body)"

definition world_store_down :: world where
  "world_store_down =
     example_world (Some ''secret'') (Inl (Error ''store down'')) all_faults (ok_reply answer_body)"

definition world_fetch_fails :: world where
  "world_fetch_fails =
     example_world (Some ''secret'') (Inl (Error ''store down'')) no_faults (ok_reply answer_body)"

definition world_user_turn_refused :: world where
  "world_user_turn_refused =
     example_world (Some ''secret'') (Inr []) all_faults (ok_reply answer_body)"

definition world_completion_503 :: world where
  "world_completion_503 =
     example_world (Some ''secret'') (Inr []) no_faults
       (Inr \<lparr>status_code = 503, json_body = Inr JNull\<rparr>)"

text \<open>The store refuses the insert made after three calls: the apology after a failed completion.\<close>

definition apology_refused :: "nat \<Rightarrow> exn option" where
  "apology_refused n = (if n = 3 then Some (Error ''store down'') else None)"




definition world_empty_choices :: world where
  "world_empty_choices =
     example_world (Some ''secret'') (Inr []) no_faults
       (ok_reply (JObject [(''choices'', JArray [])]))"

definition world_history_ab :: world where
  "world_history_ab =
     example_world (Some ''secret'')
       (Inr [message_row ''s1'' ''human'' (JString ''a'') None,
             message_row ''s1'' ''ai'' (JString ''b'') None])
       no_faults (ok_reply answer_body)"

section \<open>Effects of the single operations\<close>

lemmas example_defs = example_world_def example_request_def ok_reply_def answer_body_def
  no_faults_def all_faults_def apology_refused_def

lemmas handler_defs = sample_supabase_agent_def try_body_def history_reader_def
  fetch_conversation_history_def store_message_def call_completion_def read_completion_def
  raise_for_status_def extract_model_response_def except_RequestException_def default_limit_def
  Let_def

lemma extend_fields [simp]:
  "trace (extend w evs rows) = trace w @ evs"
  "table (extend w evs rows) = table w @ rows"
  "getenv (extend w evs rows) = getenv w"
  "py_str (extend w evs rows) = py_str w"
  "insert_execute (extend w evs rows) = insert_execute w"
  "select_execute (extend w evs rows) = select_execute w"
  "requests_post (extend w evs rows) = requests_post w"
  by (simp_all add: extend_def)

lemma extend_extend [simp]:
  "extend (extend w evs rows) evs' rows' = extend w (evs @ evs') (rows @ rows')"
  by (simp add: extend_def)

lemma new_of_extend [simp]:
  "new_rows w (extend w evs rows) = rows"
  "new_events w (extend w evs rows) = evs"
  by (simp_all add: new_rows_def new_events_def)

lemma row_of_extend [simp]:
  "apology_row (extend w evs rows) request e = apology_row w request e"
  "completion_call (extend w evs rows) request = completion_call w request"
  by (simp_all add: apology_row_def error_data_def completion_call_def completion_headers_def)

lemma has_type_message_row:
  "has_type ty (message_row sid ty' c d) = (ty = ty')"
  by (auto simp: has_type_def message_row_def)

lemma has_type_rows [simp]:
  "has_type ty (human_row request) = (ty = ''human'')"
  "has_type ty (ai_row request m) = (ty = ''ai'')"
  "has_type ty (apology_row w request e) = (ty = ''ai'')"
  by (auto simp: human_row_def ai_row_def apology_row_def has_type_message_row)

lemma fetch_world:
  "snd (fetch_conversation_history sid limit w) = w\<lparr>trace := trace w @ [Select sid limit]\<rparr>"
  by (simp add: fetch_conversation_history_def Let_def split: sum.splits)

lemma history_reader_extend:
  "snd (history_reader sid w) = extend w [Select sid 10] []"
proof -
  obtain r w' where f: "fetch_conversation_history sid default_limit w = (r, w')"
    by (cases "fetch_conversation_history sid default_limit w")
  with fetch_world [of sid default_limit w]
  have "w' = w\<lparr>trace := trace w @ [Select sid default_limit]\<rparr>"
    by simp
  with f show ?thesis
    by (simp add: history_reader_def extend_def default_limit_def split: sum.splits)
qed

lemma store_message_extend:
  "store_message sid ty c d w =
     (case insert_execute w (trace w) (table w) (message_row sid ty c d) of
        None \<Rightarrow> (Inr (), extend w [Insert (message_row sid ty c d)] [message_row sid ty c d])
      | Some e \<Rightarrow> (Inl (HTTPException 500 (''Failed to store message: '' @ py_str w e)),
                   extend w [Insert (message_row sid ty c d)] []))"
  by (simp add: store_message_def Let_def extend_def split: option.splits)

lemma store_message_Inr:
  "store_message sid ty c d w = (Inr u, w') \<Longrightarrow>
   w' = extend w [Insert (message_row sid ty c d)] [message_row sid ty c d]"
  by (auto simp: store_message_extend split: option.splits)

lemma call_completion_extend:
  "snd (call_completion (query request) w) = extend w [completion_call w request] []"
  by (simp add: call_completion_def Let_def extend_def completion_call_def)

section \<open>The runs of the handler\<close>

text \<open>
  The body of the outer \<^verbatim>\<open>try\<close> ends in one of five ways: the history read fails, the
  user turn is refused, the completion fails, the assistant turn is refused, or all four
  steps succeed. Each way fixes the calls made and the rows added.
\<close>

lemma try_body_outcomes:
  "(\<exists>e. try_body request w = (Inl e, extend w [Select (session_id request) 10] []))
   \<or> (\<exists>e. try_body request w =
            (Inl e, extend w [Select (session_id request) 10, Insert (human_row request)] []))
   \<or> (\<exists>e. try_body request w =
            (Inl e, extend w [Select (session_id request) 10, Insert (human_row request),
                              completion_call w request] [human_row request]))
   \<or> (\<exists>e m. try_body request w =
            (Inl e, extend w [Select (session_id request) 10, Insert (human_row request),
                              completion_call w request, Insert (ai_row request m)]
                             [human_row request]))
   \<or> (\<exists>m. try_body request w =
            (Inr \<lparr>success = True\<rparr>,
             extend w [Select (session_id request) 10, Insert (human_row request),
                       completion_call w request, Insert (ai_row request m)]
                      [human_row request, ai_row request m]))"
proof -
  obtain r1 w1 where h: "history_reader (session_id request) w = (r1, w1)"
    by (cases "history_reader (session_id request) w")
  have w1: "w1 = extend w [Select (session_id request) 10] []"
    using history_reader_extend [of "session_id request" w] h by simp
  show ?thesis
  proof (cases r1)
    case (Inl e)
    then show ?thesis using h w1 by (simp add: try_body_def)
  next
    case (Inr messages)
    note r1 = this
    obtain r2 w2 where
      u: "store_message (session_id request) ''human'' (JString (query request)) None w1 = (r2, w2)"
      by (cases "store_message (session_id request) ''human'' (JString (query request)) None w1")
    show ?thesis
    proof (cases r2)
      case (Inl e)
      then have "w2 = extend w [Select (session_id request) 10, Insert (human_row request)] []"
        using u w1 by (auto simp: store_message_extend human_row_def split: option.splits)
      then show ?thesis using h r1 u Inl by (simp add: try_body_def)
    next
      case (Inr x)
      note r2 = this
      then have w2: "w2 = extend w [Select (session_id request) 10, Insert (human_row request)]
                               [human_row request]"
        using u w1 by (auto simp: store_message_extend human_row_def split: option.splits)
      obtain r3 w3 where c: "call_completion (query request) w2 = (r3, w3)"
        by (cases "call_completion (query request) w2")
      have w3: "w3 = extend w [Select (session_id request) 10, Insert (human_row request),
                              completion_call w request] [human_row request]"
        using call_completion_extend [of request w2] c w2 by simp
      show ?thesis
      proof (cases r3)
        case (Inl e)
        then show ?thesis using h r1 u r2 c w3 by (simp add: try_body_def)
      next
        case (Inr m)
        note r3 = this
        obtain r4 w4 where a: "store_message (session_id request) ''ai'' m
                (Some [(''request_id'', JString (request_id request))]) w3 = (r4, w4)"
          by (cases "store_message (session_id request) ''ai'' m
                (Some [(''request_id'', JString (request_id request))]) w3")
        show ?thesis
        proof (cases r4)
          case (Inl e)
          then have "w4 = extend w [Select (session_id request) 10, Insert (human_row request),
                              completion_call w request, Insert (ai_row request m)]
                             [human_row request]"
            using a w3 by (auto simp: store_message_extend ai_row_def split: option.splits)
          then show ?thesis using h r1 u r2 c r3 a Inl by (auto simp: try_body_def)
        next
          case (Inr y)
          then have "w4 = extend w [Select (session_id request) 10, Insert (human_row request),
                              completion_call w request, Insert (ai_row request m)]
                             [human_row request, ai_row request m]"
            using a w3 by (auto simp: store_message_extend ai_row_def split: option.splits)
          then show ?thesis using h r1 u r2 c r3 a Inr by (auto simp: try_body_def)
        qed
      qed
    qed
  qed
qed

text \<open>The \<^verbatim>\<open>except Exception\<close> branch: one more insert, which the store accepts or refuses.\<close>

lemma handler_after_failure:
  assumes "try_body request w = (Inl e, w')"
  shows "sample_supabase_agent request w =
     (case insert_execute w' (trace w') (table w') (apology_row w' request e) of
        None \<Rightarrow> (Inr \<lparr>success = False\<rparr>,
                 extend w' [Insert (apology_row w' request e)] [apology_row w' request e])
      | Some e' \<Rightarrow> (Inl (HTTPException 500 (''Failed to store message: '' @ py_str w' e')),
                    extend w' [Insert (apology_row w' request e)] []))"
  using assms
  by (simp add: sample_supabase_agent_def store_message_extend apology_row_def
        split: option.splits)

lemma handler_after_success:
  assumes "try_body request w = (Inr r, w')"
  shows "sample_supabase_agent request w = (Inr r, w')"
  using assms by (simp add: sample_supabase_agent_def)

lemma handler_success:
  assumes "sample_supabase_agent request w = (Inr \<lparr>success = True\<rparr>, w')"
  shows "\<exists>m. w' = extend w [Select (session_id request) 10, Insert (human_row request),
                             completion_call w request, Insert (ai_row request m)]
                            [human_row request, ai_row request m]"
proof -
  obtain r wt where t: "try_body request w = (r, wt)"
    by (cases "try_body request w")
  show ?thesis
  proof (cases r)
    case (Inl e)
    with t assms handler_after_failure [of request w e wt] show ?thesis
      by (auto split: option.splits)
  next
    case (Inr resp)
    with t assms handler_after_success [of request w resp wt]
    have "try_body request w = (Inr \<lparr>success = True\<rparr>, w')" by simp
    with try_body_outcomes [of request w] show ?thesis by auto
  qed
qed

text \<open>Every run of the handler starts with the select: the trace records each store access.\<close>

lemma handler_reads_store:
  "\<exists>evs. trace (snd (sample_supabase_agent request w)) =
          trace w @ Select (session_id request) 10 # evs"
proof -
  from try_body_outcomes [of request w] show ?thesis
  proof (elim disjE exE)
    fix m assume t: "try_body request w =
            (Inr \<lparr>success = True\<rparr>,
             extend w [Select (session_id request) 10, Insert (human_row request),
                       completion_call w request, Insert (ai_row request m)]
                      [human_row request, ai_row request m])"
    show ?thesis by (simp add: handler_after_success [OF t])
  qed (auto simp: handler_after_failure split: option.splits)
qed

text \<open>The extraction on the shapes it expects, and with a key missing.\<close>

lemma extract_first_choice:
  "map_of body ''choices'' = Some (JArray (JObject choice # rest)) \<Longrightarrow>
   map_of choice ''message'' = Some (JObject message) \<Longrightarrow>
   map_of message ''content'' = Some c \<Longrightarrow>
   extract_model_response (JObject body) = Inr c"
  by (simp add: extract_model_response_def)

lemma extract_missing_keys:
  "map_of kvs ''choices'' = None \<Longrightarrow> extract_model_response (JObject kvs) = Inr (JString [])"
  "map_of kvs ''message'' = None \<Longrightarrow>
     extract_model_response (JObject [(''choices'', JArray (JObject kvs # rest))]) =
     Inr (JString [])"
  "map_of kvs ''content'' = None \<Longrightarrow>
     extract_model_response
       (JObject [(''choices'', JArray (JObject [(''message'', JObject kvs)] # rest))]) =
     Inr (JString [])"
  by (simp_all add: extract_model_response_def)

text \<open>How the outcome of the single steps fixes the outcome of the body.\<close>

lemma try_body_history_fails:
  assumes "history_reader (session_id request) w = (Inl e, w1)"
  shows "try_body request w = (Inl e, extend w [Select (session_id request) 10] [])"
  using assms history_reader_extend [of "session_id request" w]
  by (simp add: try_body_def)

lemma try_body_user_turn_refused:
  assumes "history_reader (session_id request) w = (Inr messages, w1)"
      and "store_message (session_id request) ''human'' (JString (query request)) None w1 =
             (Inl e, w2)"
  shows "try_body request w =
           (Inl e, extend w [Select (session_id request) 10, Insert (human_row request)] [])"
proof -
  have w1: "w1 = extend w [Select (session_id request) 10] []"
    using history_reader_extend [of "session_id request" w] assms(1) by simp
  have "w2 = extend w [Select (session_id request) 10, Insert (human_row request)] []"
    using assms(2) w1 by (auto simp: store_message_extend human_row_def split: option.splits)
  then show ?thesis using assms by (simp add: try_body_def)
qed

lemma try_body_user_turn_stored:
  assumes h: "history_reader (session_id request) w = (Inr messages, w1)"
      and u: "store_message (session_id request) ''human'' (JString (query request)) None w1 =
             (Inr (), w2)"
  shows "\<exists>res evs rows.
           try_body request w =
             (res, extend w ([Select (session_id request) 10, Insert (human_row request),
                              completion_call w request] @ evs) (human_row request # rows)) \<and>
           rows_of_type ''human'' rows = []"
proof -
  have w1: "w1 = extend w [Select (session_id request) 10] []"
    using history_reader_extend [of "session_id request" w] h by simp
  have w2: "w2 = extend w [Select (session_id request) 10, Insert (human_row request)]
                         [human_row request]"
    using store_message_Inr [OF u] w1 by (simp add: human_row_def)
  obtain r3 w3 where c: "call_completion (query request) w2 = (r3, w3)"
    by (cases "call_completion (query request) w2")
  have w3: "w3 = extend w ([Select (session_id request) 10, Insert (human_row request),
                           completion_call w request] @ []) (human_row request # [])"
    using call_completion_extend [of request w2] c w2 by simp
  show ?thesis
  proof (cases r3)
    case (Inl e)
    then have "try_body request w = (Inl e, w3)"
      using h u c by (simp add: try_body_def)
    then show ?thesis unfolding w3 by (intro exI conjI) (assumption, simp add: rows_of_type_def)
  next
    case (Inr m)
    obtain r4 w4 where a: "store_message (session_id request) ''ai'' m
                (Some [(''request_id'', JString (request_id request))]) w3 = (r4, w4)"
      by (cases "store_message (session_id request) ''ai'' m
                (Some [(''request_id'', JString (request_id request))]) w3")
    show ?thesis
    proof (cases r4)
      case (Inl e)
      then have w4: "w4 = extend w ([Select (session_id request) 10, Insert (human_row request),
                           completion_call w request] @ [Insert (ai_row request m)])
                          (human_row request # [])"
        using a w3 by (auto simp: store_message_extend ai_row_def split: option.splits)
      have "try_body request w = (Inl e, w4)"
        using h u c a Inl \<open>r3 = Inr m\<close> by (simp add: try_body_def)
      then show ?thesis unfolding w4 by (intro exI conjI) (assumption, simp add: rows_of_type_def)
    next
      case (Inr y)
      then have w4: "w4 = extend w ([Select (session_id request) 10, Insert (human_row request),
                           completion_call w request] @ [Insert (ai_row request m)])
                          (human_row request # [ai_row request m])"
        using a w3 by (auto simp: store_message_extend ai_row_def split: option.splits)
      have "try_body request w = (Inr \<lparr>success = True\<rparr>, w4)"
        using h u c a Inr \<open>r3 = Inr m\<close> by (simp add: try_body_def)
      then show ?thesis unfolding w4 by (intro exI conjI) (assumption, simp add: rows_of_type_def)
    qed
  qed
qed

text \<open>After the body of the \<^verbatim>\<open>try\<close> the handler adds at most the apology, an ai row.\<close>

lemma handler_world:
  assumes "try_body request w = (res, extend w evs rows)"
  shows "\<exists>evs' rows'.
           snd (sample_supabase_agent request w) = extend w (evs @ evs') (rows @ rows') \<and>
           rows_of_type ''human'' rows' = []"
proof (cases res)
  case (Inl e)
  show ?thesis
  proof (cases "insert_execute w (trace w @ evs) (table w @ rows) (apology_row w request e)")
    case None
    then have "snd (sample_supabase_agent request w) =
        extend w (evs @ [Insert (apology_row w request e)]) (rows @ [apology_row w request e])"
      using assms Inl by (simp add: handler_after_failure)
    moreover have "rows_of_type ''human'' [apology_row w request e] = []"
      by (simp add: rows_of_type_def)
    ultimately show ?thesis by blast
  next
    case (Some e')
    then have "snd (sample_supabase_agent request w) =
        extend w (evs @ [Insert (apology_row w request e)]) (rows @ [])"
      using assms Inl by (simp add: handler_after_failure)
    moreover have "rows_of_type ''human'' [] = []"
      by (simp add: rows_of_type_def)
    ultimately show ?thesis by blast
  qed
next
  case (Inr r)
  then have "snd (sample_supabase_agent request w) = extend w (evs @ []) (rows @ [])"
    using assms by (simp add: handler_after_success)
  moreover have "rows_of_type ''human'' [] = []"
    by (simp add: rows_of_type_def)
  ultimately show ?thesis by blast
qed

lemma try_body_failure_world:
  assumes "try_body request w = (Inl e, wt)"
  shows "wt = extend w (new_events w wt) (new_rows w wt) \<and> new_events w wt \<noteq> [] \<and>
         rows_of_type ''ai'' (new_rows w wt) = []"
  using try_body_outcomes [of request w] assms
  by (elim disjE exE) (auto simp: rows_of_type_def)

lemma try_body_success_world:
  assumes "try_body request w = (Inr r, wt)"
  shows "r = \<lparr>success = True\<rparr> \<and>
         (\<exists>m. wt = extend w [Select (session_id request) 10, Insert (human_row request),
                             completion_call w request, Insert (ai_row request m)]
                            [human_row request, ai_row request m])"
  using try_body_outcomes [of request w] assms
  by (elim disjE exE) auto


lemma try_body_world:
  "snd (try_body request w) =
     extend w (new_events w (snd (try_body request w))) (new_rows w (snd (try_body request w)))"
  using try_body_outcomes [of request w]
  by (elim disjE exE) auto

section \<open>Token Verifier: claims C8 and C10\<close>




text \<open>
  C10. An empty configured token is treated as an unset one: every credential, the empty
  one included, gets the status 500 configuration error, the same answer as with the
  variable removed, so the verifier never authenticates.
\<close>

theorem empty_token_is_unset:
  "getenv w ''API_BEARER_TOKEN'' = Some [] \<Longrightarrow>
     verify_token w credentials =
       Inl (HTTPException 500 ''API_BEARER_TOKEN environment variable not set'') \<and>
     verify_token w [] \<noteq> Inr True \<and>
     verify_token w credentials =
       verify_token (w\<lparr>getenv := (getenv w)(''API_BEARER_TOKEN'' := None)\<rparr>) credentials \<and>
     api_sample_supabase_agent (Inr credentials) request w =
       (Inl (HTTPException 500 ''API_BEARER_TOKEN environment variable not set''), w)"
  by (simp add: verify_token_def api_sample_supabase_agent_def)

text \<open>Witness for C10: the empty credential against the empty token.\<close>

theorem empty_token_is_unset_witness:
  "getenv world_empty_token ''API_BEARER_TOKEN'' = Some [] \<and>
   verify_token world_empty_token [] =
     Inl (HTTPException 500 ''API_BEARER_TOKEN environment variable not set'')"
proof -
  have h: "getenv world_empty_token ''API_BEARER_TOKEN'' = Some []"
    by (simp add: world_empty_token_def example_world_def)
  show ?thesis using h empty_token_is_unset [OF h, of "[]" example_request] by simp
qed

section \<open>History Reader: claims C3 and C4\<close>

text \<open>
  C3. Whatever sequence of rows the store returns for the select, for any session and any
  limit, \<open>fetch_conversation_history\<close> returns exactly its reversal; one select is made.
\<close>

theorem fetch_returns_reversal:
  "select_execute w (trace w) (table w) sid limit = Inr data \<Longrightarrow>
     fst (fetch_conversation_history sid limit w) = Inr (rev data) \<and>
     trace (snd (fetch_conversation_history sid limit w)) = trace w @ [Select sid limit]"
  by (simp add: fetch_conversation_history_def)

text \<open>Witness for C3: the store returns a human row and then an ai row.\<close>

theorem fetch_returns_reversal_witness:
  "select_execute world_history_ab (trace world_history_ab) (table world_history_ab) ''s1'' 10 =
     Inr [message_row ''s1'' ''human'' (JString ''a'') None,
          message_row ''s1'' ''ai'' (JString ''b'') None] \<and>
   fst (fetch_conversation_history ''s1'' 10 world_history_ab) =
     Inr [message_row ''s1'' ''ai'' (JString ''b'') None,
          message_row ''s1'' ''human'' (JString ''a'') None]"
proof -
  have h: "select_execute world_history_ab (trace world_history_ab) (table world_history_ab)
             ''s1'' 10 =
     Inr [message_row ''s1'' ''human'' (JString ''a'') None,
          message_row ''s1'' ''ai'' (JString ''b'') None]"
    by (simp add: world_history_ab_def example_world_def)
  show ?thesis using h fetch_returns_reversal [OF h] by simp
qed

text \<open>
  C4, as stated, fails: when the store returns the human message \<open>a\<close> and then the ai
  message \<open>b\<close>, the reader does not yield them in that same order.
\<close>

theorem history_reader_example_not_same_order:
  "fst (history_reader ''s1'' world_history_ab) \<noteq>
     Inr [JObject [(''role'', JString ''human''), (''content'', JString ''a'')],
          JObject [(''role'', JString ''ai''), (''content'', JString ''b'')]]"
  by (simp add: handler_defs world_history_ab_def example_defs message_row_def)

text \<open>
  C4, amended. When the store returns the human message \<open>a\<close> and then the ai message \<open>b\<close>
  (newest first), the reader, fetch followed by the projection, yields the reversed
  sequence: the pair for the ai message \<open>b\<close>, then the pair for the human message \<open>a\<close>.
\<close>

theorem history_reader_reverses_example:
  "select_execute w (trace w) (table w) sid default_limit =
     Inr [message_row sid ''human'' (JString ''a'') None,
          message_row sid ''ai'' (JString ''b'') None] \<Longrightarrow>
   fst (history_reader sid w) =
     Inr [JObject [(''role'', JString ''ai''), (''content'', JString ''b'')],
          JObject [(''role'', JString ''human''), (''content'', JString ''a'')]]"
  by (simp add: history_reader_def fetch_conversation_history_def message_row_def)

text \<open>Witness for C4, amended.\<close>

theorem history_reader_reverses_example_witness:
  "select_execute world_history_ab (trace world_history_ab) (table world_history_ab) ''s1''
     default_limit =
     Inr [message_row ''s1'' ''human'' (JString ''a'') None,
          message_row ''s1'' ''ai'' (JString ''b'') None] \<and>
   fst (history_reader ''s1'' world_history_ab) =
     Inr [JObject [(''role'', JString ''ai''), (''content'', JString ''b'')],
          JObject [(''role'', JString ''human''), (''content'', JString ''a'')]]"
proof -
  have h: "select_execute world_history_ab (trace world_history_ab) (table world_history_ab)
             ''s1'' default_limit =
     Inr [message_row ''s1'' ''human'' (JString ''a'') None,
          message_row ''s1'' ''ai'' (JString ''b'') None]"
    by (simp add: world_history_ab_def example_world_def)
  show ?thesis using h history_reader_reverses_example [OF h] by simp
qed

section \<open>Completion Client: claim C5\<close>

text \<open>
  C5. The extraction is not total. The completion endpoint answers with status 200 and
  the body \<^verbatim>\<open>{"choices": []}\<close>: the default of \<^verbatim>\<open>get\<close> is not used, since the key is there,
  and indexing the empty list raises \<open>IndexError\<close> instead of giving the empty text. The
  exception is not a \<^verbatim>\<open>RequestException\<close>, so it leaves the inner \<^verbatim>\<open>try\<close> unchanged and the
  handler answers with \<open>success = False\<close>.
\<close>

theorem extraction_raises_on_empty_choices:
  "extract_model_response (JObject [(''choices'', JArray [])]) = Inl IndexError \<and>
   fst (call_completion (query example_request) world_empty_choices) = Inl IndexError \<and>
   fst (sample_supabase_agent example_request world_empty_choices) = Inr \<lparr>success = False\<rparr>"
  by (simp add: handler_defs world_empty_choices_def example_defs)

section \<open>Message Writer: claim C9\<close>

text \<open>
  C9. The writer does not deduplicate. Two calls with the same session, role, content and
  metadata that the store accepts append two rows, whatever the table held before. Two
  successful requests with the same \<open>request_id\<close> append two pairs of rows, each a user
  turn followed by an assistant turn.
\<close>

theorem no_deduplication:
  "(store_message sid ty c d w = (Inr (), w1) \<and> store_message sid ty c d w1 = (Inr (), w2) \<longrightarrow>
      table w2 = table w @ [message_row sid ty c d, message_row sid ty c d]) \<and>
   (request_id r2 = request_id r1 \<and>
    sample_supabase_agent r1 v = (Inr \<lparr>success = True\<rparr>, v1) \<and>
    sample_supabase_agent r2 v1 = (Inr \<lparr>success = True\<rparr>, v2) \<longrightarrow>
      (\<exists>m1 m2. table v2 = table v @ [human_row r1, ai_row r1 m1, human_row r2, ai_row r2 m2]))"
proof (intro conjI impI)
  assume "store_message sid ty c d w = (Inr (), w1) \<and> store_message sid ty c d w1 = (Inr (), w2)"
  then show "table w2 = table w @ [message_row sid ty c d, message_row sid ty c d]"
    using store_message_Inr [of sid ty c d w "()" w1] store_message_Inr [of sid ty c d w1 "()" w2]
    by simp
next
  assume a: "request_id r2 = request_id r1 \<and>
    sample_supabase_agent r1 v = (Inr \<lparr>success = True\<rparr>, v1) \<and>
    sample_supabase_agent r2 v1 = (Inr \<lparr>success = True\<rparr>, v2)"
  then obtain m1 where m1: "table v1 = table v @ [human_row r1, ai_row r1 m1]"
    using handler_success [of r1 v v1] by auto
  from a obtain m2 where m2: "table v2 = table v1 @ [human_row r2, ai_row r2 m2]"
    using handler_success [of r2 v1 v2] by auto
  from m1 m2
  have "table v2 = table v @ [human_row r1, ai_row r1 m1, human_row r2, ai_row r2 m2]"
    by simp
  then show "\<exists>m1 m2. table v2 =
      table v @ [human_row r1, ai_row r1 m1, human_row r2, ai_row r2 m2]"
    by blast
qed

text \<open>
  Witness for C9: the same message written twice, and the same request handled twice, in
  a world where the store accepts every insert.
\<close>

theorem no_deduplication_witness:
  "fst (store_message ''s1'' ''human'' (JString ''hi'') None world_ok) = Inr () \<and>
   fst (store_message ''s1'' ''human'' (JString ''hi'') None
          (snd (store_message ''s1'' ''human'' (JString ''hi'') None world_ok))) = Inr () \<and>
   table (snd (store_message ''s1'' ''human'' (JString ''hi'') None
          (snd (store_message ''s1'' ''human'' (JString ''hi'') None world_ok)))) =
     [message_row ''s1'' ''human'' (JString ''hi'') None,
      message_row ''s1'' ''human'' (JString ''hi'') None] \<and>
   fst (sample_supabase_agent example_request world_ok) = Inr \<lparr>success = True\<rparr> \<and>
   fst (sample_supabase_agent example_request
          (snd (sample_supabase_agent example_request world_ok))) = Inr \<lparr>success = True\<rparr> \<and>
   length (table (snd (sample_supabase_agent example_request
          (snd (sample_supabase_agent example_request world_ok))))) = 4"
proof -
  let ?w1 = "snd (store_message ''s1'' ''human'' (JString ''hi'') None world_ok)"
  let ?w2 = "snd (store_message ''s1'' ''human'' (JString ''hi'') None ?w1)"
  let ?v1 = "snd (sample_supabase_agent example_request world_ok)"
  let ?v2 = "snd (sample_supabase_agent example_request ?v1)"
  have s1: "fst (store_message ''s1'' ''human'' (JString ''hi'') None world_ok) = Inr ()"
    by (simp add: store_message_def world_ok_def example_defs Let_def)
  have s2: "fst (store_message ''s1'' ''human'' (JString ''hi'') None ?w1) = Inr ()"
    by (simp add: store_message_def world_ok_def example_defs Let_def)
  have h1: "fst (sample_supabase_agent example_request world_ok) = Inr \<lparr>success = True\<rparr>"
    by (simp add: handler_defs world_ok_def example_defs)
  have h2: "fst (sample_supabase_agent example_request ?v1) = Inr \<lparr>success = True\<rparr>"
    by (simp add: handler_defs world_ok_def example_defs)
  have p1: "store_message ''s1'' ''human'' (JString ''hi'') None world_ok = (Inr (), ?w1)"
    using s1 by (simp add: prod_eq_iff)
  have p2: "store_message ''s1'' ''human'' (JString ''hi'') None ?w1 = (Inr (), ?w2)"
    using s2 by (simp add: prod_eq_iff)
  have q1: "sample_supabase_agent example_request world_ok = (Inr \<lparr>success = True\<rparr>, ?v1)"
    using h1 by (simp add: prod_eq_iff)
  have q2: "sample_supabase_agent example_request ?v1 = (Inr \<lparr>success = True\<rparr>, ?v2)"
    using h2 by (simp add: prod_eq_iff)
  have t0: "table world_ok = []"
    by (simp add: world_ok_def example_world_def)
  note n = no_deduplication [of "''s1''" "''human''" "JString ''hi''" None world_ok ?w1 ?w2
      example_request example_request world_ok ?v1 ?v2]
  from n p1 p2 have a: "table ?w2 = [message_row ''s1'' ''human'' (JString ''hi'') None,
      message_row ''s1'' ''human'' (JString ''hi'') None]"
    using t0 by simp
  from n q1 q2 have b: "length (table ?v2) = 4"
    using t0 by auto
  from s1 s2 a h1 h2 b show ?thesis by simp
qed

section \<open>Request Handler: claims C1, C2, C6 and C7\<close>

text \<open>
  C1, as stated, fails: the request is authenticated, the store is down, so the history
  read fails and the apology write fails too; the exception of the apology write leaves
  the handler and the caller gets status 500.
\<close>

theorem apology_write_failure_gives_500:
  "verify_token world_store_down ''secret'' = Inr True \<and>
   fst (api_sample_supabase_agent (Inr ''secret'') example_request world_store_down) =
     Inl (HTTPException 500 ''Failed to store message: store down'') \<and>
   http_status (fst (api_sample_supabase_agent (Inr ''secret'') example_request
                       world_store_down)) = 500"
  by (simp add: api_sample_supabase_agent_def verify_token_def handler_defs
        world_store_down_def example_defs)

text \<open>
  C1, amended. For an authenticated request, when the body of the \<^verbatim>\<open>try\<close> raises (during
  the history read, the user-turn write, the model call or the assistant-turn write), the
  handler attempts the apology write. If the store accepts it, the handler returns
  \<open>success = False\<close> with status 200. If the store refuses it, the handler fails with the
  status 500 error of that write.
\<close>

theorem failure_response_after_auth:
  assumes auth: "verify_token w credentials = Inr True"
      and fail: "try_body request w = (Inl e, w')"
  shows "(insert_execute w' (trace w') (table w') (apology_row w' request e) = None \<longrightarrow>
            fst (api_sample_supabase_agent (Inr credentials) request w) =
              Inr \<lparr>success = False\<rparr> \<and>
            http_status (fst (api_sample_supabase_agent (Inr credentials) request w)) = 200) \<and>
         (insert_execute w' (trace w') (table w') (apology_row w' request e) = Some e' \<longrightarrow>
            fst (api_sample_supabase_agent (Inr credentials) request w) =
              Inl (HTTPException 500 (''Failed to store message: '' @ py_str w' e')) \<and>
            http_status (fst (api_sample_supabase_agent (Inr credentials) request w)) = 500)"
  using auth handler_after_failure [OF fail]
  by (simp add: api_sample_supabase_agent_def)

text \<open>
  Witness for C1, amended: the history read fails and the store accepts the apology.
\<close>

theorem failure_response_after_auth_witness:
  "verify_token world_fetch_fails ''secret'' = Inr True \<and>
   fst (try_body example_request world_fetch_fails) =
     Inl (HTTPException 500 ''Failed to fetch conversation history: store down'') \<and>
   fst (api_sample_supabase_agent (Inr ''secret'') example_request world_fetch_fails) =
     Inr \<lparr>success = False\<rparr> \<and>
   http_status (fst (api_sample_supabase_agent (Inr ''secret'') example_request
                       world_fetch_fails)) = 200"
proof -
  let ?e = "HTTPException 500 ''Failed to fetch conversation history: store down''"
  let ?w' = "snd (try_body example_request world_fetch_fails)"
  have auth: "verify_token world_fetch_fails ''secret'' = Inr True"
    by (simp add: verify_token_def world_fetch_fails_def example_world_def)
  have f: "fst (try_body example_request world_fetch_fails) = Inl ?e"
    by (simp add: handler_defs world_fetch_fails_def example_defs)
  then have fail: "try_body example_request world_fetch_fails = (Inl ?e, ?w')"
    by (simp add: prod_eq_iff)
  have ins: "insert_execute ?w' (trace ?w') (table ?w') (apology_row ?w' example_request ?e) = None"
    by (simp add: handler_defs world_fetch_fails_def example_defs)
  from failure_response_after_auth [OF auth fail] ins auth f show ?thesis
    by simp
qed

text \<open>
  C2, as stated, fails: the history read fails, the handler stores the apology and returns
  \<open>success = False\<close>, and no human message has been written.
\<close>

theorem no_human_turn_when_fetch_fails:
  "fst (sample_supabase_agent example_request world_fetch_fails) = Inr \<lparr>success = False\<rparr> \<and>
   rows_of_type ''human''
     (new_rows world_fetch_fails
        (snd (sample_supabase_agent example_request world_fetch_fails))) = [] \<and>
   length (new_rows world_fetch_fails
             (snd (sample_supabase_agent example_request world_fetch_fails))) = 1"
  by (simp add: handler_defs world_fetch_fails_def example_defs rows_of_type_def has_type_def
        message_row_def error_data_def new_rows_def)

text \<open>
  C2, amended. In every run of the handler the table and the trace only grow. When the
  history read fails, or the user-turn write is refused, the body of the \<^verbatim>\<open>try\<close> fails
  there and the run writes no human message. When the history read succeeds and the store
  accepts the user turn, the run writes exactly one human message, the row of the
  incoming query, and its first three calls are the select, the insert of that row and
  the completion call: the write precedes the completion attempt. Whatever the completion
  does, the run writes exactly one ai message, as its last row and by its last call, when
  the handler returns a response: the assistant turn when the body succeeds, the apology
  when the body fails and the store accepts the apology. When the store refuses the
  apology, the handler fails with the exception of that write and the run has written no
  ai message.
\<close>

theorem turns_written:
  "let w' = snd (sample_supabase_agent request w);
       humans = rows_of_type ''human'' (new_rows w w');
       ais = rows_of_type ''ai'' (new_rows w w')
   in table w' = table w @ new_rows w w' \<and>
      trace w' = trace w @ new_events w w' \<and>
      (history_reader (session_id request) w = (Inl e1, w1) \<longrightarrow>
         try_body request w = (Inl e1, w1) \<and> humans = []) \<and>
      (history_reader (session_id request) w = (Inr ms2, v1) \<and>
       store_message (session_id request) ''human'' (JString (query request)) None v1 =
         (Inl e2, v2) \<longrightarrow>
         try_body request w = (Inl e2, v2) \<and> humans = []) \<and>
      (history_reader (session_id request) w = (Inr ms3, u1) \<and>
       store_message (session_id request) ''human'' (JString (query request)) None u1 =
         (Inr (), u2) \<longrightarrow>
         humans = [human_row request] \<and>
         take 3 (new_events w w') =
           [Select (session_id request) 10, Insert (human_row request),
            completion_call w request]) \<and>
      (try_body request w = (Inr r, wt) \<longrightarrow>
         sample_supabase_agent request w = (Inr \<lparr>success = True\<rparr>, wt) \<and>
         (\<exists>m. ais = [ai_row request m] \<and> last (new_rows w w') = ai_row request m \<and>
              last (new_events w w') = Insert (ai_row request m))) \<and>
      (try_body request w = (Inl e3, wx) \<and>
       store_message (session_id request) ''ai'' (JString apology)
         (Some (error_data wx request e3)) wx = (Inr (), wxa) \<longrightarrow>
         sample_supabase_agent request w = (Inr \<lparr>success = False\<rparr>, wxa) \<and>
         ais = [apology_row w request e3] \<and>
         last (new_rows w w') = apology_row w request e3 \<and>
         last (new_events w w') = Insert (apology_row w request e3)) \<and>
      (try_body request w = (Inl e4, wy) \<and>
       store_message (session_id request) ''ai'' (JString apology)
         (Some (error_data wy request e4)) wy = (Inl e5, wyb) \<longrightarrow>
         sample_supabase_agent request w = (Inl e5, wyb) \<and> ais = [])"
proof -
  let ?w' = "snd (sample_supabase_agent request w)"
  obtain res where t: "try_body request w =
      (res, extend w (new_events w (snd (try_body request w)))
                     (new_rows w (snd (try_body request w))))"
    using try_body_world [of request w] by (cases "try_body request w") simp
  from handler_world [OF t] obtain evs rows where
    hw: "?w' = extend w evs rows"
    by blast
  have grow: "table ?w' = table w @ new_rows w ?w'" "trace ?w' = trace w @ new_events w ?w'"
    by (simp_all add: hw)
  have c1: "try_body request w = (Inl e1, w1) \<and> rows_of_type ''human'' (new_rows w ?w') = []"
    if h: "history_reader (session_id request) w = (Inl e1, w1)"
  proof -
    have w1: "w1 = extend w [Select (session_id request) 10] []"
      using history_reader_extend [of "session_id request" w] h by simp
    have tb: "try_body request w = (Inl e1, extend w [Select (session_id request) 10] [])"
      by (rule try_body_history_fails [OF h])
    from handler_world [OF tb] obtain evs' rows' where
      "?w' = extend w ([Select (session_id request) 10] @ evs') ([] @ rows')"
      "rows_of_type ''human'' rows' = []"
      by blast
    then show ?thesis using tb w1 by simp
  qed
  have c2: "try_body request w = (Inl e2, v2) \<and> rows_of_type ''human'' (new_rows w ?w') = []"
    if h: "history_reader (session_id request) w = (Inr ms2, v1)"
    and u: "store_message (session_id request) ''human'' (JString (query request)) None v1 =
         (Inl e2, v2)"
  proof -
    have tb: "try_body request w =
        (Inl e2, extend w [Select (session_id request) 10, Insert (human_row request)] [])"
      by (rule try_body_user_turn_refused [OF h u])
    have "try_body request w = (Inl e2, v2)"
      using h u by (simp add: try_body_def)
    moreover from handler_world [OF tb] obtain evs' rows' where
      "?w' = extend w ([Select (session_id request) 10, Insert (human_row request)] @ evs')
                      ([] @ rows')"
      "rows_of_type ''human'' rows' = []"
      by blast
    ultimately show ?thesis by simp
  qed
  have c3: "rows_of_type ''human'' (new_rows w ?w') = [human_row request] \<and>
         take 3 (new_events w ?w') =
           [Select (session_id request) 10, Insert (human_row request),
            completion_call w request]"
    if h: "history_reader (session_id request) w = (Inr ms3, u1)"
    and u: "store_message (session_id request) ''human'' (JString (query request)) None u1 =
         (Inr (), u2)"
  proof -
    from try_body_user_turn_stored [OF h u] obtain res' evs1 rows1 where
      tb: "try_body request w =
             (res', extend w ([Select (session_id request) 10, Insert (human_row request),
                              completion_call w request] @ evs1) (human_row request # rows1))"
      and r1: "rows_of_type ''human'' rows1 = []"
      by blast
    from handler_world [OF tb] obtain evs' rows' where
      "?w' = extend w (([Select (session_id request) 10, Insert (human_row request),
                              completion_call w request] @ evs1) @ evs')
                      ((human_row request # rows1) @ rows')"
      "rows_of_type ''human'' rows' = []"
      by blast
    then show ?thesis using r1 by (simp add: rows_of_type_def)
  qed
  have c4: "sample_supabase_agent request w = (Inr \<lparr>success = True\<rparr>, wt) \<and>
         (\<exists>m. rows_of_type ''ai'' (new_rows w ?w') = [ai_row request m] \<and>
              last (new_rows w ?w') = ai_row request m \<and>
              last (new_events w ?w') = Insert (ai_row request m))"
    if tb: "try_body request w = (Inr r, wt)"
  proof -
    from try_body_success_world [OF tb] obtain m where
      r: "r = \<lparr>success = True\<rparr>" and
      wt: "wt = extend w [Select (session_id request) 10, Insert (human_row request),
                         completion_call w request, Insert (ai_row request m)]
                        [human_row request, ai_row request m]"
      by blast
    have hs: "sample_supabase_agent request w = (Inr \<lparr>success = True\<rparr>, wt)"
      using handler_after_success [OF tb] r by simp
    then have "rows_of_type ''ai'' (new_rows w ?w') = [ai_row request m] \<and>
              last (new_rows w ?w') = ai_row request m \<and>
              last (new_events w ?w') = Insert (ai_row request m)"
      by (simp add: wt rows_of_type_def)
    with hs show ?thesis by blast
  qed
  have c5: "sample_supabase_agent request w = (Inr \<lparr>success = False\<rparr>, wxa) \<and>
         rows_of_type ''ai'' (new_rows w ?w') = [apology_row w request e3] \<and>
         last (new_rows w ?w') = apology_row w request e3 \<and>
         last (new_events w ?w') = Insert (apology_row w request e3)"
    if tb: "try_body request w = (Inl e3, wx)"
    and a: "store_message (session_id request) ''ai'' (JString apology)
         (Some (error_data wx request e3)) wx = (Inr (), wxa)"
  proof -
    from try_body_failure_world [OF tb] obtain evs1 rows1 where
      wx: "wx = extend w evs1 rows1" and r1: "rows_of_type ''ai'' rows1 = []"
      by blast
    have hs: "sample_supabase_agent request w = (Inr \<lparr>success = False\<rparr>, wxa)"
      using tb a by (simp add: sample_supabase_agent_def)
    have "wxa = extend wx [Insert (apology_row wx request e3)] [apology_row wx request e3]"
      using store_message_Inr [OF a] by (simp add: apology_row_def)
    then have "wxa = extend w (evs1 @ [Insert (apology_row w request e3)])
                            (rows1 @ [apology_row w request e3])"
      by (simp add: wx)
    with hs r1 show ?thesis by (simp add: rows_of_type_def)
  qed
  have c6: "sample_supabase_agent request w = (Inl e5, wyb) \<and>
         rows_of_type ''ai'' (new_rows w ?w') = []"
    if tb: "try_body request w = (Inl e4, wy)"
    and a: "store_message (session_id request) ''ai'' (JString apology)
         (Some (error_data wy request e4)) wy = (Inl e5, wyb)"
  proof -
    from try_body_failure_world [OF tb] obtain evs1 rows1 where
      wy: "wy = extend w evs1 rows1" and r1: "rows_of_type ''ai'' rows1 = []"
      by blast
    have hs: "sample_supabase_agent request w = (Inl e5, wyb)"
      using tb a by (simp add: sample_supabase_agent_def)
    have "wyb = extend wy [Insert (apology_row wy request e4)] []"
      using a by (auto simp: store_message_extend apology_row_def split: option.splits)
    then have "wyb = extend w (evs1 @ [Insert (apology_row w request e4)]) rows1"
      by (simp add: wy)
    with hs r1 show ?thesis by simp
  qed
  show ?thesis
    unfolding Let_def using grow c1 c2 c3 c4 c5 c6 by blast
qed

text \<open>
  Witness for C2, amended: the history read fails; the store refuses the user turn and
  then the apology; the completion endpoint answers 503 and the apology is stored; all
  four steps succeed.
\<close>

theorem turns_written_witness:
  "fst (history_reader ''s1'' world_fetch_fails) =
     Inl (HTTPException 500 ''Failed to fetch conversation history: store down'') \<and>
   rows_of_type ''human''
     (new_rows world_fetch_fails
        (snd (sample_supabase_agent example_request world_fetch_fails))) = [] \<and>
   fst (history_reader ''s1'' world_user_turn_refused) = Inr [] \<and>
   fst (store_message ''s1'' ''human'' (JString ''print(1)'') None
          (snd (history_reader ''s1'' world_user_turn_refused))) =
     Inl (HTTPException 500 ''Failed to store message: store down'') \<and>
   rows_of_type ''human''
     (new_rows world_user_turn_refused
        (snd (sample_supabase_agent example_request world_user_turn_refused))) = [] \<and>
   fst (sample_supabase_agent example_request world_user_turn_refused) =
     Inl (HTTPException 500 ''Failed to store message: store down'') \<and>
   rows_of_type ''ai''
     (new_rows world_user_turn_refused
        (snd (sample_supabase_agent example_request world_user_turn_refused))) = [] \<and>
   fst (history_reader ''s1'' world_completion_503) = Inr [] \<and>
   fst (store_message ''s1'' ''human'' (JString ''print(1)'') None
          (snd (history_reader ''s1'' world_completion_503))) = Inr () \<and>
   rows_of_type ''human''
     (new_rows world_completion_503
        (snd (sample_supabase_agent example_request world_completion_503))) =
     [human_row example_request] \<and>
   fst (sample_supabase_agent example_request world_completion_503) =
     Inr \<lparr>success = False\<rparr> \<and>
   length (rows_of_type ''ai''
     (new_rows world_completion_503
        (snd (sample_supabase_agent example_request world_completion_503)))) = 1 \<and>
   fst (try_body example_request world_ok) = Inr \<lparr>success = True\<rparr> \<and>
   length (rows_of_type ''ai''
     (new_rows world_ok (snd (sample_supabase_agent example_request world_ok)))) = 1"
proof -
  let ?r = example_request
  \<comment> \<open>the history read fails\<close>
  let ?a = world_fetch_fails
  let ?ea = "HTTPException 500 ''Failed to fetch conversation history: store down''"
  have a1: "fst (history_reader ''s1'' ?a) = Inl ?ea"
    by (simp add: handler_defs world_fetch_fails_def example_defs)
  then have a2: "history_reader (session_id ?r) ?a = (Inl ?ea, snd (history_reader ''s1'' ?a))"
    by (simp add: prod_eq_iff example_request_def)
  have a: "rows_of_type ''human'' (new_rows ?a (snd (sample_supabase_agent ?r ?a))) = []"
    using turns_written [where request = ?r and w = ?a and ?e1.0 = ?ea
        and ?w1.0 = "snd (history_reader ''s1'' ?a)"] a2
    by (simp add: Let_def)
  \<comment> \<open>the user turn is refused, and then the apology\<close>
  let ?b = world_user_turn_refused
  let ?eb = "HTTPException 500 ''Failed to store message: store down''"
  let ?b1 = "snd (history_reader ''s1'' ?b)"
  let ?b2 = "snd (store_message ''s1'' ''human'' (JString ''print(1)'') None ?b1)"
  let ?b3 = "snd (store_message ''s1'' ''ai'' (JString apology)
                    (Some (error_data ?b2 ?r ?eb)) ?b2)"
  have b1: "fst (history_reader ''s1'' ?b) = Inr []"
    by (simp add: handler_defs world_user_turn_refused_def example_defs)
  have b2: "fst (store_message ''s1'' ''human'' (JString ''print(1)'') None ?b1) = Inl ?eb"
    by (simp add: handler_defs world_user_turn_refused_def example_defs)
  have b3: "fst (store_message ''s1'' ''ai'' (JString apology)
                    (Some (error_data ?b2 ?r ?eb)) ?b2) = Inl ?eb"
    by (simp add: handler_defs world_user_turn_refused_def example_defs)
  have b4: "history_reader (session_id ?r) ?b = (Inr [], ?b1)"
    using b1 by (simp add: prod_eq_iff example_request_def)
  have b5: "store_message (session_id ?r) ''human'' (JString (query ?r)) None ?b1 = (Inl ?eb, ?b2)"
    using b2 by (simp add: prod_eq_iff example_request_def)
  have b6: "store_message (session_id ?r) ''ai'' (JString apology)
                    (Some (error_data ?b2 ?r ?eb)) ?b2 = (Inl ?eb, ?b3)"
    using b3 by (simp add: prod_eq_iff example_request_def)
  note tb = turns_written [where request = ?r and w = ?b and ?ms2.0 = "[]" and ?v1.0 = ?b1
        and ?e2.0 = ?eb and ?v2.0 = ?b2 and ?e4.0 = ?eb and ?wy = ?b2 and ?e5.0 = ?eb
        and ?wyb = ?b3, unfolded Let_def]
  from tb b4 b5 have b7: "try_body ?r ?b = (Inl ?eb, ?b2)"
    and b: "rows_of_type ''human'' (new_rows ?b (snd (sample_supabase_agent ?r ?b))) = []"
    by blast+
  from tb b7 b6 have b': "sample_supabase_agent ?r ?b = (Inl ?eb, ?b3)"
    and b'': "rows_of_type ''ai'' (new_rows ?b (snd (sample_supabase_agent ?r ?b))) = []"
    by blast+
  \<comment> \<open>the completion fails and the apology is stored\<close>
  let ?c = world_completion_503
  let ?ec = "HTTPException 500 (example_str (HTTPError 503))"
  let ?c1 = "snd (history_reader ''s1'' ?c)"
  let ?c2 = "snd (store_message ''s1'' ''human'' (JString ''print(1)'') None ?c1)"
  let ?c3 = "snd (try_body ?r ?c)"
  let ?c4 = "snd (store_message ''s1'' ''ai'' (JString apology)
                    (Some (error_data ?c3 ?r ?ec)) ?c3)"
  have c1: "fst (history_reader ''s1'' ?c) = Inr []"
    by (simp add: handler_defs world_completion_503_def example_defs)
  have c2: "fst (store_message ''s1'' ''human'' (JString ''print(1)'') None ?c1) = Inr ()"
    by (simp add: handler_defs world_completion_503_def example_defs)
  have c3: "fst (try_body ?r ?c) = Inl ?ec"
    by (simp add: handler_defs world_completion_503_def example_defs)
  have c4: "fst (store_message ''s1'' ''ai'' (JString apology)
                    (Some (error_data ?c3 ?r ?ec)) ?c3) = Inr ()"
    by (simp add: handler_defs world_completion_503_def example_defs)
  have c5: "history_reader (session_id ?r) ?c = (Inr [], ?c1)"
    using c1 by (simp add: prod_eq_iff example_request_def)
  have c6: "store_message (session_id ?r) ''human'' (JString (query ?r)) None ?c1 = (Inr (), ?c2)"
    using c2 by (simp add: prod_eq_iff example_request_def)
  have c7: "try_body ?r ?c = (Inl ?ec, ?c3)"
    using c3 by (simp add: prod_eq_iff)
  have c8: "store_message (session_id ?r) ''ai'' (JString apology)
                    (Some (error_data ?c3 ?r ?ec)) ?c3 = (Inr (), ?c4)"
    using c4 by (simp add: prod_eq_iff example_request_def)
  note tc = turns_written [where request = ?r and w = ?c and ?ms3.0 = "[]" and ?u1.0 = ?c1
        and ?u2.0 = ?c2 and ?e3.0 = ?ec and ?wx = ?c3 and ?wxa = ?c4, unfolded Let_def]
  from tc c5 c6 have c: "rows_of_type ''human'' (new_rows ?c (snd (sample_supabase_agent ?r ?c))) =
      [human_row ?r]"
    by blast
  from tc c7 c8 have c': "sample_supabase_agent ?r ?c = (Inr \<lparr>success = False\<rparr>, ?c4)"
    and c'': "rows_of_type ''ai'' (new_rows ?c (snd (sample_supabase_agent ?r ?c))) =
      [apology_row ?c ?r ?ec]"
    by blast+
  \<comment> \<open>all four steps succeed\<close>
  let ?d = world_ok
  have d1: "fst (try_body ?r ?d) = Inr \<lparr>success = True\<rparr>"
    by (simp add: handler_defs world_ok_def example_defs)
  then have d2: "try_body ?r ?d = (Inr \<lparr>success = True\<rparr>, snd (try_body ?r ?d))"
    by (simp add: prod_eq_iff)
  from turns_written [where request = ?r and w = ?d and r = "\<lparr>success = True\<rparr>"
        and wt = "snd (try_body ?r ?d)", unfolded Let_def] d2
  obtain m where d: "rows_of_type ''ai'' (new_rows ?d (snd (sample_supabase_agent ?r ?d))) =
      [ai_row ?r m]"
    by blast
  show ?thesis
    using a1 a b1 b2 b b' b'' c1 c2 c c' c'' d1 d by simp
qed

text \<open>
  C6. When all four steps succeed (the history is read and projected, the store accepts
  the user turn, the completion call yields a model output, the store accepts the
  assistant turn), the handler returns \<open>success = True\<close> together with the world in which
  the assistant turn is already stored. Exactly two rows have been added: the human
  message with the query as content, then the ai message with the model output as
  content and the \<open>request_id\<close> in its metadata. The calls were made in the order select,
  insert, completion call, insert.
\<close>

theorem successful_request_persists_two_messages:
  assumes h: "history_reader (session_id request) w = (Inr messages, w1)"
      and u: "store_message (session_id request) ''human'' (JString (query request)) None w1 =
                (Inr (), w2)"
      and c: "call_completion (query request) w2 = (Inr model_response, w3)"
      and a: "store_message (session_id request) ''ai'' model_response
                (Some [(''request_id'', JString (request_id request))]) w3 = (Inr (), w4)"
  shows "sample_supabase_agent request w = (Inr \<lparr>success = True\<rparr>, w4) \<and>
         table w4 = table w @
           [JObject [(''session_id'', JString (session_id request)),
                     (''message'',
                      JObject [(''type'', JString ''human''),
                               (''content'', JString (query request))])],
            JObject [(''session_id'', JString (session_id request)),
                     (''message'',
                      JObject [(''type'', JString ''ai''),
                               (''content'', model_response),
                               (''data'',
                                JObject [(''request_id'', JString (request_id request))])])]] \<and>
         trace w4 = trace w @
           [Select (session_id request) 10, Insert (human_row request),
            completion_call w request, Insert (ai_row request model_response)]"
proof -
  have r: "sample_supabase_agent request w = (Inr \<lparr>success = True\<rparr>, w4)"
    using h u c a by (simp add: sample_supabase_agent_def try_body_def)
  have w1: "w1 = extend w [Select (session_id request) 10] []"
    using history_reader_extend [of "session_id request" w] h by simp
  have w2: "w2 = extend w1 [Insert (human_row request)] [human_row request]"
    using store_message_Inr [OF u] by (simp add: human_row_def)
  have w3: "w3 = extend w2 [completion_call w2 request] []"
    using call_completion_extend [of request w2] c by simp
  have w4: "w4 = extend w3 [Insert (ai_row request model_response)]
                          [ai_row request model_response]"
    using store_message_Inr [OF a] by (simp add: ai_row_def)
  have rows: "table w4 = table w @ [human_row request, ai_row request model_response]"
    by (simp add: w4 w3 w2 w1)
  have calls: "trace w4 = trace w @
           [Select (session_id request) 10, Insert (human_row request),
            completion_call w request, Insert (ai_row request model_response)]"
    by (simp add: w4 w3 w2 w1)
  from r rows calls show ?thesis
    by (simp add: human_row_def ai_row_def message_row_def)
qed

text \<open>Witness for C6: a store that accepts every insert and a well-formed completion.\<close>

theorem successful_request_persists_two_messages_witness:
  "fst (history_reader ''s1'' world_ok) = Inr [] \<and>
   fst (call_completion ''print(1)''
          (snd (store_message ''s1'' ''human'' (JString ''print(1)'') None
                  (snd (history_reader ''s1'' world_ok))))) = Inr (JString ''Python'') \<and>
   fst (sample_supabase_agent example_request world_ok) = Inr \<lparr>success = True\<rparr> \<and>
   table (snd (sample_supabase_agent example_request world_ok)) =
     [human_row example_request, ai_row example_request (JString ''Python'')]"
proof -
  let ?w1 = "snd (history_reader ''s1'' world_ok)"
  let ?w2 = "snd (store_message ''s1'' ''human'' (JString ''print(1)'') None ?w1)"
  let ?w3 = "snd (call_completion ''print(1)'' ?w2)"
  let ?w4 = "snd (store_message ''s1'' ''ai'' (JString ''Python'')
                    (Some [(''request_id'', JString ''r1'')]) ?w3)"
  have fh: "fst (history_reader ''s1'' world_ok) = Inr []"
    by (simp add: handler_defs world_ok_def example_defs)
  have fu: "fst (store_message ''s1'' ''human'' (JString ''print(1)'') None ?w1) = Inr ()"
    by (simp add: handler_defs world_ok_def example_defs)
  have fc: "fst (call_completion ''print(1)'' ?w2) = Inr (JString ''Python'')"
    by (simp add: handler_defs world_ok_def example_defs)
  have fa: "fst (store_message ''s1'' ''ai'' (JString ''Python'')
                    (Some [(''request_id'', JString ''r1'')]) ?w3) = Inr ()"
    by (simp add: handler_defs world_ok_def example_defs)
  have h: "history_reader (session_id example_request) world_ok = (Inr [], ?w1)"
    using fh by (simp add: prod_eq_iff example_request_def)
  have u: "store_message (session_id example_request) ''human''
             (JString (query example_request)) None ?w1 = (Inr (), ?w2)"
    using fu by (simp add: prod_eq_iff example_request_def)
  have c: "call_completion (query example_request) ?w2 = (Inr (JString ''Python''), ?w3)"
    using fc by (simp add: prod_eq_iff example_request_def)
  have a: "store_message (session_id example_request) ''ai'' (JString ''Python'')
             (Some [(''request_id'', JString (request_id example_request))]) ?w3 = (Inr (), ?w4)"
    using fa by (simp add: prod_eq_iff example_request_def)
  have t0: "table world_ok = []"
    by (simp add: world_ok_def example_world_def)
  from successful_request_persists_two_messages [OF h u c a] t0 fh fc show ?thesis
    by (simp add: human_row_def ai_row_def message_row_def)
qed




end
